theory Spec2Isabelle
  imports Complex_Main "HOL-Library.Multiset" "HOL-Library.AList"
begin

section \<open>Values and errors\<close>

text \<open>
  The handlers of \<^verbatim>\<open>server.py\<close> are modelled as functions on an explicit store.
  A handler that writes returns the pair of its outcome and the store it leaves behind,
  so that what a raised exception leaves in the store is part of the model.
  The clock (\<^verbatim>\<open>datetime.utcnow()\<close>) and the identifier the driver generates for an
  inserted document are inputs of the handlers that use them.
  The authentication dependency \<^verbatim>\<open>Depends(verify_token)\<close> runs before a protected
  handler's body and never touches the store; the handler functions below are the bodies.
\<close>

type_synonym datetime = int
  \<comment> \<open>whole seconds since the epoch, the resolution of the \<^verbatim>\<open>exp\<close> claim\<close>

type_synonym oid = "nat list"
  \<comment> \<open>the bytes of a \<^verbatim>\<open>bson.ObjectId\<close> (\<^verbatim>\<open>ObjectId.binary\<close>)\<close>

datatype error =
    HTTPException nat string
  | InvalidId
  | DuplicateKeyError
  | JWTError
  | JWSError
  | JWKError
  | TypeError
  | ValueError
  | OverflowError

subsection \<open>\<^verbatim>\<open>bson.ObjectId\<close>\<close>

text \<open>
  \<^verbatim>\<open>ObjectId(s)\<close> on a string: a string whose length is not 24 raises
  \<^verbatim>\<open>InvalidId\<close>; otherwise the identifier is \<^verbatim>\<open>bytes.fromhex(s)\<close>, and
  \<^verbatim>\<open>InvalidId\<close> is raised when that fails. \<^verbatim>\<open>bytes.fromhex\<close> reads two
  hexadecimal digits per byte, in either case, and skips ASCII whitespace between bytes.
  \<^verbatim>\<open>str(oid)\<close> is the lower-case hexadecimal text of the bytes.
\<close>

definition isspace :: "char \<Rightarrow> bool" where
  "isspace c = (c \<in> set [CHR 0x09, CHR 0x0A, CHR 0x0B, CHR 0x0C, CHR 0x0D, CHR 0x20])"

definition digit_value :: "char \<Rightarrow> nat option" where
  "digit_value c =
     (let n = (of_char c :: nat)
      in if 48 \<le> n \<and> n \<le> 57 then Some (n - 48)
         else if 97 \<le> n \<and> n \<le> 102 then Some (n - 87)
         else if 65 \<le> n \<and> n \<le> 70 then Some (n - 55)
         else None)"

fun fromhex :: "string \<Rightarrow> nat list option" where
  "fromhex [] = Some []"
| "fromhex [c] = (if isspace c then Some [] else None)"
| "fromhex (c # d # ds) =
     (if isspace c then fromhex (d # ds)
      else (case (digit_value c, digit_value d) of
              (Some hi, Some lo) \<Rightarrow> map_option ((#) (16 * hi + lo)) (fromhex ds)
            | _ \<Rightarrow> None))"

definition ObjectId :: "string \<Rightarrow> error + oid" where
  "ObjectId s =
     (if length s = 24
      then (case fromhex s of None \<Rightarrow> Inl InvalidId | Some b \<Rightarrow> Inr b)
      else Inl InvalidId)"

definition hex_digit :: "nat \<Rightarrow> char" where
  "hex_digit n = ''0123456789abcdef'' ! (n mod 16)"

definition str_oid :: "oid \<Rightarrow> string" where
  "str_oid b = concat (map (\<lambda>x. [hex_digit (x div 16), hex_digit x]) b)"

section \<open>Models\<close>

record CategoryCreate =
  name_tr :: string
  name_en :: string
  sort_order :: int
  is_active :: bool

text \<open>A stored category: the fields of \<^verbatim>\<open>category.dict()\<close> and \<^verbatim>\<open>created_at\<close>.\<close>

record Category = CategoryCreate +
  created_at :: datetime

record ProductCreate =
  category_id :: string
  name_tr :: string
  name_en :: string
  description_tr :: "string option"
  description_en :: "string option"
  price :: real
  image_url :: "string option"
  sort_order :: int
  is_active :: bool

record Product = ProductCreate +
  created_at :: datetime

record CategoryUpdate =
  name_tr :: "string option"
  name_en :: "string option"
  sort_order :: "int option"
  is_active :: "bool option"

record ProductUpdate =
  category_id :: "string option"
  name_tr :: "string option"
  name_en :: "string option"
  description_tr :: "string option"
  description_en :: "string option"
  price :: "real option"
  image_url :: "string option"
  sort_order :: "int option"
  is_active :: "bool option"


text \<open>
  A document of a collection: the \<^verbatim>\<open>_id\<close> the store keeps and the other fields.
  \<^verbatim>\<open>serialize_doc\<close> replaces \<^verbatim>\<open>_id\<close> by the string \<^verbatim>\<open>id\<close>.
\<close>

record 'b document =
  ident :: oid
  content :: 'b

record 'b serialized =
  body :: 'b
  id_str :: string

fun serialize_doc :: "'b document option \<Rightarrow> 'b serialized option" where
  "serialize_doc None = None"
| "serialize_doc (Some doc) = Some \<lparr>body = content doc, id_str = str_oid (ident doc)\<rparr>"

section \<open>The store\<close>

record db =
  categories_collection :: "Category document list"
  products_collection :: "Product document list"

text \<open>
  A collection is the list of its documents in insertion order; a query is the predicate
  its filter document denotes. \<^verbatim>\<open>_id\<close> is unique in a collection: inserting a second
  document with an \<^verbatim>\<open>_id\<close> already present raises \<^verbatim>\<open>DuplicateKeyError\<close>.
\<close>

definition find_one :: "('d \<Rightarrow> bool) \<Rightarrow> 'd list \<Rightarrow> 'd option" where
  "find_one query coll = List.find query coll"

definition insert_one :: "'b document \<Rightarrow> 'b document list \<Rightarrow> error + 'b document list" where
  "insert_one doc coll =
     (if ident doc \<in> set (map ident coll) then Inl DuplicateKeyError else Inr (coll @ [doc]))"

text \<open>\<^verbatim>\<open>update_one\<close> and \<^verbatim>\<open>delete_one\<close> act on the first match and return the
  count (\<^verbatim>\<open>matched_count\<close>, \<^verbatim>\<open>deleted_count\<close>) with the new collection.\<close>

fun update_one :: "('d \<Rightarrow> bool) \<Rightarrow> ('d \<Rightarrow> 'd) \<Rightarrow> 'd list \<Rightarrow> nat \<times> 'd list" where
  "update_one query upd [] = (0, [])"
| "update_one query upd (d # ds) =
     (if query d then (1, upd d # ds)
      else (case update_one query upd ds of (n, ds') \<Rightarrow> (n, d # ds')))"

fun delete_one :: "('d \<Rightarrow> bool) \<Rightarrow> 'd list \<Rightarrow> nat \<times> 'd list" where
  "delete_one query [] = (0, [])"
| "delete_one query (d # ds) =
     (if query d then (1, ds)
      else (case delete_one query ds of (n, ds') \<Rightarrow> (n, d # ds')))"

definition count_documents :: "('d \<Rightarrow> bool) \<Rightarrow> 'd list \<Rightarrow> nat" where
  "count_documents query coll = length (filter query coll)"

text \<open>
  \<^verbatim>\<open>find(query).sort(key, 1).to_list(n)\<close>: the matching documents in ascending order
  of the key, cut after \<open>n\<close>. The store does not fix the order of documents with equal
  keys; here they stay in insertion order, and the listing theorem below holds for any
  order of ties.
\<close>

definition find_sort_to_list :: "('d \<Rightarrow> bool) \<Rightarrow> ('d \<Rightarrow> int) \<Rightarrow> nat \<Rightarrow> 'd list \<Rightarrow> 'd list" where
  "find_sort_to_list query key n coll = take n (sort_key key (filter query coll))"

section \<open>Category endpoints\<close>

definition get_categories :: "db \<Rightarrow> bool \<Rightarrow> Category serialized option list" where
  "get_categories d active_only =
     (let query = (if active_only
                   then (\<lambda>c. CategoryCreate.is_active (content c) = True)
                   else (\<lambda>c. True));
          categories = find_sort_to_list query (\<lambda>c. CategoryCreate.sort_order (content c)) 100
                         (categories_collection d)
      in map (\<lambda>cat. serialize_doc (Some cat)) categories)"

definition get_category :: "db \<Rightarrow> string \<Rightarrow> error + Category serialized option" where
  "get_category d cat_id =
     (case ObjectId cat_id of
        Inl e \<Rightarrow> Inl e
      | Inr i \<Rightarrow>
          (case find_one (\<lambda>c. ident c = i) (categories_collection d) of
             None \<Rightarrow> Inl (HTTPException 404 ''Category not found'')
           | Some category \<Rightarrow> Inr (serialize_doc (Some category))))"

definition create_category ::
  "db \<Rightarrow> datetime \<Rightarrow> oid \<Rightarrow> CategoryCreate \<Rightarrow> (error + Category serialized option) \<times> db" where
  "create_category d now inserted_id category =
     (let category_dict = CategoryCreate.extend category (Category.fields now)
      in case insert_one \<lparr>ident = inserted_id, content = category_dict\<rparr> (categories_collection d) of
           Inl e \<Rightarrow> (Inl e, d)
         | Inr coll \<Rightarrow>
             (let d' = d\<lparr>categories_collection := coll\<rparr>;
                  new_category = find_one (\<lambda>c. ident c = inserted_id) (categories_collection d')
              in (Inr (serialize_doc new_category), d')))"

text \<open>
  \<^verbatim>\<open>update_data\<close> is the dictionary of the payload's fields that are not
  \<^verbatim>\<open>None\<close>: a list of typed assignments, in the order of the model's fields.
\<close>

datatype category_field =
    CName_tr string
  | CName_en string
  | CSort_order int
  | CIs_active bool

definition CategoryUpdate_dict :: "CategoryUpdate \<Rightarrow> category_field option list" where
  "CategoryUpdate_dict category =
     [map_option CName_tr (CategoryUpdate.name_tr category),
      map_option CName_en (CategoryUpdate.name_en category),
      map_option CSort_order (CategoryUpdate.sort_order category),
      map_option CIs_active (CategoryUpdate.is_active category)]"

fun set_category_field :: "category_field \<Rightarrow> Category \<Rightarrow> Category" where
  "set_category_field (CName_tr v) c = c\<lparr>CategoryCreate.name_tr := v\<rparr>"
| "set_category_field (CName_en v) c = c\<lparr>CategoryCreate.name_en := v\<rparr>"
| "set_category_field (CSort_order v) c = c\<lparr>CategoryCreate.sort_order := v\<rparr>"
| "set_category_field (CIs_active v) c = c\<lparr>CategoryCreate.is_active := v\<rparr>"

text \<open>The update document \<^verbatim>\<open>{"$set": update_data}\<close> applied to a stored document.\<close>

definition set_category :: "category_field list \<Rightarrow> Category document \<Rightarrow> Category document" where
  "set_category update_data doc = doc\<lparr>content := fold set_category_field update_data (content doc)\<rparr>"

definition update_category ::
  "db \<Rightarrow> string \<Rightarrow> CategoryUpdate \<Rightarrow> (error + Category serialized option) \<times> db" where
  "update_category d cat_id category =
     (let update_data = List.map_filter (\<lambda>v. v) (CategoryUpdate_dict category)
      in if update_data = [] then (Inl (HTTPException 400 ''No fields to update''), d)
         else (case ObjectId cat_id of
                 Inl e \<Rightarrow> (Inl e, d)
               | Inr i \<Rightarrow>
                   (case update_one (\<lambda>c. ident c = i) (set_category update_data)
                           (categories_collection d) of
                      (matched_count, coll) \<Rightarrow>
                        (let d' = d\<lparr>categories_collection := coll\<rparr>
                         in if matched_count = 0
                            then (Inl (HTTPException 404 ''Category not found''), d')
                            else (Inr (serialize_doc
                                        (find_one (\<lambda>c. ident c = i) (categories_collection d'))),
                                  d')))))"

definition delete_category :: "db \<Rightarrow> string \<Rightarrow> (error + string) \<times> db" where
  "delete_category d cat_id =
     (let products_count =
            count_documents (\<lambda>p. ProductCreate.category_id (content p) = cat_id)
              (products_collection d)
      in if products_count > 0
         then (Inl (HTTPException 400 ''Cannot delete category with products''), d)
         else (case ObjectId cat_id of
                 Inl e \<Rightarrow> (Inl e, d)
               | Inr i \<Rightarrow>
                   (case delete_one (\<lambda>c. ident c = i) (categories_collection d) of
                      (deleted_count, coll) \<Rightarrow>
                        (let d' = d\<lparr>categories_collection := coll\<rparr>
                         in if deleted_count = 0
                            then (Inl (HTTPException 404 ''Category not found''), d')
                            else (Inr ''Category deleted successfully'', d')))))"

section \<open>Product endpoints\<close>

definition get_products :: "db \<Rightarrow> string option \<Rightarrow> bool \<Rightarrow> Product serialized option list" where
  "get_products d cat_id active_only =
     (let query0 = (case cat_id of
                      None \<Rightarrow> (\<lambda>p. True)
                    | Some s \<Rightarrow> if s \<noteq> [] then (\<lambda>p. ProductCreate.category_id (content p) = s)
                               else (\<lambda>p. True));
          query = (if active_only
                   then (\<lambda>p. query0 p \<and> ProductCreate.is_active (content p) = True)
                   else query0);
          products = find_sort_to_list query (\<lambda>p. ProductCreate.sort_order (content p)) 1000
                       (products_collection d)
      in map (\<lambda>prod. serialize_doc (Some prod)) products)"

definition get_product :: "db \<Rightarrow> string \<Rightarrow> error + Product serialized option" where
  "get_product d product_id =
     (case ObjectId product_id of
        Inl e \<Rightarrow> Inl e
      | Inr i \<Rightarrow>
          (case find_one (\<lambda>p. ident p = i) (products_collection d) of
             None \<Rightarrow> Inl (HTTPException 404 ''Product not found'')
           | Some product \<Rightarrow> Inr (serialize_doc (Some product))))"

definition create_product ::
  "db \<Rightarrow> datetime \<Rightarrow> oid \<Rightarrow> ProductCreate \<Rightarrow> (error + Product serialized option) \<times> db" where
  "create_product d now inserted_id product =
     (case ObjectId (ProductCreate.category_id product) of
        Inl e \<Rightarrow> (Inl e, d)
      | Inr i \<Rightarrow>
          (case find_one (\<lambda>c. ident c = i) (categories_collection d) of
             None \<Rightarrow> (Inl (HTTPException 404 ''Category not found''), d)
           | Some category \<Rightarrow>
               (let product_dict = ProductCreate.extend product (Product.fields now)
                in case insert_one \<lparr>ident = inserted_id, content = product_dict\<rparr>
                          (products_collection d) of
                     Inl e \<Rightarrow> (Inl e, d)
                   | Inr coll \<Rightarrow>
                       (let d' = d\<lparr>products_collection := coll\<rparr>;
                            new_product = find_one (\<lambda>p. ident p = inserted_id)
                                            (products_collection d')
                        in (Inr (serialize_doc new_product), d')))))"

datatype product_field =
    PCategory_id string
  | PName_tr string
  | PName_en string
  | PDescription_tr string
  | PDescription_en string
  | PPrice real
  | PImage_url string
  | PSort_order int
  | PIs_active bool

definition ProductUpdate_dict :: "ProductUpdate \<Rightarrow> product_field option list" where
  "ProductUpdate_dict product =
     [map_option PCategory_id (ProductUpdate.category_id product),
      map_option PName_tr (ProductUpdate.name_tr product),
      map_option PName_en (ProductUpdate.name_en product),
      map_option PDescription_tr (ProductUpdate.description_tr product),
      map_option PDescription_en (ProductUpdate.description_en product),
      map_option PPrice (ProductUpdate.price product),
      map_option PImage_url (ProductUpdate.image_url product),
      map_option PSort_order (ProductUpdate.sort_order product),
      map_option PIs_active (ProductUpdate.is_active product)]"

fun set_product_field :: "product_field \<Rightarrow> Product \<Rightarrow> Product" where
  "set_product_field (PCategory_id v) p = p\<lparr>ProductCreate.category_id := v\<rparr>"
| "set_product_field (PName_tr v) p = p\<lparr>ProductCreate.name_tr := v\<rparr>"
| "set_product_field (PName_en v) p = p\<lparr>ProductCreate.name_en := v\<rparr>"
| "set_product_field (PDescription_tr v) p = p\<lparr>ProductCreate.description_tr := Some v\<rparr>"
| "set_product_field (PDescription_en v) p = p\<lparr>ProductCreate.description_en := Some v\<rparr>"
| "set_product_field (PPrice v) p = p\<lparr>ProductCreate.price := v\<rparr>"
| "set_product_field (PImage_url v) p = p\<lparr>ProductCreate.image_url := Some v\<rparr>"
| "set_product_field (PSort_order v) p = p\<lparr>ProductCreate.sort_order := v\<rparr>"
| "set_product_field (PIs_active v) p = p\<lparr>ProductCreate.is_active := v\<rparr>"

definition set_product :: "product_field list \<Rightarrow> Product document \<Rightarrow> Product document" where
  "set_product update_data doc = doc\<lparr>content := fold set_product_field update_data (content doc)\<rparr>"

text \<open>\<^verbatim>\<open>update_data["category_id"]\<close> when \<^verbatim>\<open>"category_id" in update_data\<close>.\<close>

fun get_category_id :: "product_field list \<Rightarrow> string option" where
  "get_category_id [] = None"
| "get_category_id (PCategory_id s # fs) = Some s"
| "get_category_id (f # fs) = get_category_id fs"

definition update_product ::
  "db \<Rightarrow> string \<Rightarrow> ProductUpdate \<Rightarrow> (error + Product serialized option) \<times> db" where
  "update_product d product_id product =
     (let update_data = List.map_filter (\<lambda>v. v) (ProductUpdate_dict product)
      in if update_data = [] then (Inl (HTTPException 400 ''No fields to update''), d)
         else
           (let category_check =
                  (case get_category_id update_data of
                     None \<Rightarrow> None
                   | Some s \<Rightarrow>
                       (case ObjectId s of
                          Inl e \<Rightarrow> Some e
                        | Inr i \<Rightarrow>
                            (case find_one (\<lambda>c. ident c = i) (categories_collection d) of
                               None \<Rightarrow> Some (HTTPException 404 ''Category not found'')
                             | Some category \<Rightarrow> None)))
            in case category_check of
                 Some e \<Rightarrow> (Inl e, d)
               | None \<Rightarrow>
                   (case ObjectId product_id of
                      Inl e \<Rightarrow> (Inl e, d)
                    | Inr i \<Rightarrow>
                        (case update_one (\<lambda>p. ident p = i) (set_product update_data)
                                (products_collection d) of
                           (matched_count, coll) \<Rightarrow>
                             (let d' = d\<lparr>products_collection := coll\<rparr>
                              in if matched_count = 0
                                 then (Inl (HTTPException 404 ''Product not found''), d')
                                 else (Inr (serialize_doc
                                             (find_one (\<lambda>p. ident p = i) (products_collection d'))),
                                       d'))))))"

definition delete_product :: "db \<Rightarrow> string \<Rightarrow> (error + string) \<times> db" where
  "delete_product d product_id =
     (case ObjectId product_id of
        Inl e \<Rightarrow> (Inl e, d)
      | Inr i \<Rightarrow>
          (case delete_one (\<lambda>p. ident p = i) (products_collection d) of
             (deleted_count, coll) \<Rightarrow>
               (let d' = d\<lparr>products_collection := coll\<rparr>
                in if deleted_count = 0
                   then (Inl (HTTPException 404 ''Product not found''), d')
                   else (Inr ''Product deleted successfully'', d'))))"

section \<open>Authentication\<close>



subsection \<open>\<^verbatim>\<open>jose.jwt\<close>\<close>












subsection \<open>The functions of \<^verbatim>\<open>server.py\<close>\<close>







section \<open>Sequences of operations and the stated properties\<close>

text \<open>The mutating operations, each with the inputs its handler takes.\<close>

datatype operation =
    Create_category datetime oid CategoryCreate
  | Update_category string CategoryUpdate
  | Delete_category string
  | Create_product datetime oid ProductCreate
  | Update_product string ProductUpdate
  | Delete_product string

fun step :: "db \<Rightarrow> operation \<Rightarrow> db" where
  "step d (Create_category now i category) = snd (create_category d now i category)"
| "step d (Update_category cat_id category) = snd (update_category d cat_id category)"
| "step d (Delete_category cat_id) = snd (delete_category d cat_id)"
| "step d (Create_product now i product) = snd (create_product d now i product)"
| "step d (Update_product product_id product) = snd (update_product d product_id product)"
| "step d (Delete_product product_id) = snd (delete_product d product_id)"

definition run_ops :: "db \<Rightarrow> operation list \<Rightarrow> db" where
  "run_ops d ops = foldl step d ops"

text \<open>
  A category reference resolves when the lookup \<^verbatim>\<open>create_product\<close> makes for it finds
  a category; referential integrity says that of every stored product.
\<close>

definition resolves :: "db \<Rightarrow> string \<Rightarrow> bool" where
  "resolves d cat_id =
     (case ObjectId cat_id of
        Inl e \<Rightarrow> False
      | Inr i \<Rightarrow> find_one (\<lambda>c. ident c = i) (categories_collection d) \<noteq> None)"

definition referential_integrity :: "db \<Rightarrow> bool" where
  "referential_integrity d =
     list_all (\<lambda>p. resolves d (ProductCreate.category_id (content p))) (products_collection d)"

text \<open>
  What an update must leave alone: a stored document after an update with payload \<open>u\<close>
  keeps \<^verbatim>\<open>_id\<close>, \<^verbatim>\<open>created_at\<close> and every field that is null in \<open>u\<close>; an optional
  field that held a value still holds one.
\<close>

definition category_frame :: "CategoryUpdate \<Rightarrow> Category document \<Rightarrow> Category document \<Rightarrow> bool" where
  "category_frame u c c' =
     (ident c' = ident c
      \<and> Category.created_at (content c') = Category.created_at (content c)
      \<and> (CategoryUpdate.name_tr u = None
           \<longrightarrow> CategoryCreate.name_tr (content c') = CategoryCreate.name_tr (content c))
      \<and> (CategoryUpdate.name_en u = None
           \<longrightarrow> CategoryCreate.name_en (content c') = CategoryCreate.name_en (content c))
      \<and> (CategoryUpdate.sort_order u = None
           \<longrightarrow> CategoryCreate.sort_order (content c') = CategoryCreate.sort_order (content c))
      \<and> (CategoryUpdate.is_active u = None
           \<longrightarrow> CategoryCreate.is_active (content c') = CategoryCreate.is_active (content c)))"

definition product_frame :: "ProductUpdate \<Rightarrow> Product document \<Rightarrow> Product document \<Rightarrow> bool" where
  "product_frame u p p' =
     (ident p' = ident p
      \<and> Product.created_at (content p') = Product.created_at (content p)
      \<and> (ProductUpdate.category_id u = None
           \<longrightarrow> ProductCreate.category_id (content p') = ProductCreate.category_id (content p))
      \<and> (ProductUpdate.name_tr u = None
           \<longrightarrow> ProductCreate.name_tr (content p') = ProductCreate.name_tr (content p))
      \<and> (ProductUpdate.name_en u = None
           \<longrightarrow> ProductCreate.name_en (content p') = ProductCreate.name_en (content p))
      \<and> (ProductUpdate.description_tr u = None
           \<longrightarrow> ProductCreate.description_tr (content p') = ProductCreate.description_tr (content p))
      \<and> (ProductUpdate.description_en u = None
           \<longrightarrow> ProductCreate.description_en (content p') = ProductCreate.description_en (content p))
      \<and> (ProductUpdate.price u = None
           \<longrightarrow> ProductCreate.price (content p') = ProductCreate.price (content p))
      \<and> (ProductUpdate.image_url u = None
           \<longrightarrow> ProductCreate.image_url (content p') = ProductCreate.image_url (content p))
      \<and> (ProductUpdate.sort_order u = None
           \<longrightarrow> ProductCreate.sort_order (content p') = ProductCreate.sort_order (content p))
      \<and> (ProductUpdate.is_active u = None
           \<longrightarrow> ProductCreate.is_active (content p') = ProductCreate.is_active (content p))
      \<and> (ProductCreate.description_tr (content p) \<noteq> None
           \<longrightarrow> ProductCreate.description_tr (content p') \<noteq> None)
      \<and> (ProductCreate.description_en (content p) \<noteq> None
           \<longrightarrow> ProductCreate.description_en (content p') \<noteq> None)
      \<and> (ProductCreate.image_url (content p) \<noteq> None
           \<longrightarrow> ProductCreate.image_url (content p') \<noteq> None))"

subsection \<open>Sample data\<close>

text \<open>The menu of the specification's example: the category Drinks and the product Cola.\<close>

definition empty_db :: db where
  "empty_db = \<lparr>categories_collection = [], products_collection = []\<rparr>"

definition drinks_oid :: oid where
  "drinks_oid = [101, 161, 178, 195, 212, 229, 246, 167, 184, 201, 208, 225]"

definition cola_oid :: oid where
  "cola_oid = [101, 161, 178, 195, 212, 229, 246, 167, 184, 201, 208, 226]"

definition drinks_fields :: CategoryCreate where
  "drinks_fields =
     \<lparr>CategoryCreate.name_tr = ''Icecekler'', name_en = ''Drinks'', sort_order = 1,
      is_active = True\<rparr>"

definition drinks :: "Category document" where
  "drinks = \<lparr>ident = drinks_oid,
             content = CategoryCreate.extend drinks_fields (Category.fields 1700000000)\<rparr>"

definition cola_fields :: "string \<Rightarrow> ProductCreate" where
  "cola_fields cat_id =
     \<lparr>ProductCreate.category_id = cat_id, name_tr = ''Kola'', name_en = ''Cola'',
      description_tr = None, description_en = None, price = 2.5, image_url = None,
      sort_order = 0, is_active = True\<rparr>"

definition cola :: "Product document" where
  "cola = \<lparr>ident = cola_oid,
           content = ProductCreate.extend (cola_fields ''65a1b2c3d4e5f6a7b8c9d0e1'')
                       (Product.fields 1700000060)\<rparr>"

definition menu :: db where
  "menu = \<lparr>categories_collection = [drinks], products_collection = [cola]\<rparr>"

text \<open>A product with its optional fields set, and the menu that holds it as well.\<close>

definition ayran_oid :: oid where
  "ayran_oid = [101, 161, 178, 195, 212, 229, 246, 167, 184, 201, 208, 227]"

definition ayran :: "Product document" where
  "ayran = \<lparr>ident = ayran_oid,
            content = \<lparr>ProductCreate.category_id = ''65a1b2c3d4e5f6a7b8c9d0e1'',
                       name_tr = ''Ayran'', name_en = ''Ayran'',
                       description_tr = Some ''Soguk ayran'',
                       description_en = Some ''Cold yoghurt drink'', price = 1.5,
                       image_url = Some ''/uploads/ayran.png'', sort_order = 1,
                       is_active = True, Product.created_at = 1700000120\<rparr>\<rparr>"

definition full_menu :: db where
  "full_menu = \<lparr>categories_collection = [drinks], products_collection = [cola, ayran]\<rparr>"

text \<open>Cola, created with the identifier of Drinks written in upper case.\<close>

definition cola_upper :: "Product document" where
  "cola_upper = \<lparr>ident = cola_oid,
                 content = ProductCreate.extend (cola_fields ''65A1B2C3D4E5F6A7B8C9D0E1'')
                             (Product.fields 1700000060)\<rparr>"

text \<open>A store of \<open>n\<close> active categories, with \<^verbatim>\<open>sort_order\<close> \<open>0\<close> to \<open>n - 1\<close>.\<close>

definition numbered_category :: "nat \<Rightarrow> Category document" where
  "numbered_category k =
     \<lparr>ident = [101, 161, 178, 195, 212, 229, 246, 167, 184, 201, k div 256, k mod 256],
      content = \<lparr>CategoryCreate.name_tr = ''Kategori'', name_en = ''Category'',
                 sort_order = int k, is_active = True, Category.created_at = 1700000000\<rparr>\<rparr>"

definition many_categories :: "nat \<Rightarrow> db" where
  "many_categories n =
     \<lparr>categories_collection = map numbered_category [0 ..< n], products_collection = []\<rparr>"

definition no_category_fields :: CategoryUpdate where
  "no_category_fields =
     \<lparr>CategoryUpdate.name_tr = None, name_en = None, sort_order = None, is_active = None\<rparr>"

definition no_product_fields :: ProductUpdate where
  "no_product_fields =
     \<lparr>ProductUpdate.category_id = None, name_tr = None, name_en = None, description_tr = None,
      description_en = None, price = None, image_url = None, sort_order = None,
      is_active = None\<rparr>"






section \<open>Facts about the store operations\<close>

lemma find_one_None: "find_one query coll = None \<longleftrightarrow> (\<forall>d\<in>set coll. \<not> query d)"
  by (auto simp: find_one_def find_None_iff)

lemma find_one_absent:
  "i \<notin> set (map ident coll) \<Longrightarrow> find_one (\<lambda>c. ident c = i) coll = None"
  by (auto simp: find_one_None)

lemma update_one_no_match:
  "\<forall>d\<in>set coll. \<not> query d \<Longrightarrow> update_one query upd coll = (0, coll)"
  by (induction coll) auto

lemma delete_one_find:
  "delete_one query coll =
     (case find_one query coll of None \<Rightarrow> (0, coll) | Some x \<Rightarrow> (1, remove1 x coll))"
proof (induction coll)
  case Nil
  then show ?case by (simp add: find_one_def)
next
  case (Cons d ds)
  show ?case
  proof (cases "query d")
    case True
    then show ?thesis by (simp add: find_one_def)
  next
    case False
    have "x \<noteq> d" if "find_one query ds = Some x" for x
      using that False by (auto simp: find_one_def find_Some_iff)
    with False Cons show ?thesis
      by (auto simp: find_one_def split: option.splits)
  qed
qed

lemma set_map_filter_Some:
  "set (List.map_filter (\<lambda>v. v) xs) = {y. Some y \<in> set xs}"
  by (induction xs) (auto split: option.splits)

lemma Some_eq_map_option:
  "Some y = map_option f x \<longleftrightarrow> (\<exists>z. x = Some z \<and> y = f z)"
  by (cases x) auto

subsection \<open>The sample identifiers\<close>

lemma drinks_id_str: "ObjectId ''65a1b2c3d4e5f6a7b8c9d0e1'' = Inr drinks_oid"
  by (simp add: ObjectId_def digit_value_def isspace_def drinks_oid_def)

lemma drinks_id_upper: "ObjectId ''65A1B2C3D4E5F6A7B8C9D0E1'' = Inr drinks_oid"
  by (simp add: ObjectId_def digit_value_def isspace_def drinks_oid_def)

lemma cola_id_str: "ObjectId ''65a1b2c3d4e5f6a7b8c9d0e2'' = Inr cola_oid"
  by (simp add: ObjectId_def digit_value_def isspace_def cola_oid_def)

lemma abc_invalid: "ObjectId ''abc'' = Inl InvalidId"
  by (simp add: ObjectId_def)

lemma cola_not_a_category: "cola_oid \<notin> set (map ident (categories_collection menu))"
  by (simp add: menu_def drinks_def drinks_oid_def cola_oid_def)

section \<open>Empty updates\<close>

text \<open>
  C5. A category update and a product update whose payload supplies no field (every
  field null) raise the 400 error ``No fields to update'' and return the store they were
  given, whatever the store and the identifier are: the check runs before the identifier
  is parsed and before any store call.
\<close>

theorem empty_update_fails_BadRequest:
  "update_category d cat_id no_category_fields
     = (Inl (HTTPException 400 ''No fields to update''), d)
   \<and> update_product d product_id no_product_fields
     = (Inl (HTTPException 400 ''No fields to update''), d)"
  by (simp add: update_category_def update_product_def CategoryUpdate_dict_def
      ProductUpdate_dict_def no_category_fields_def no_product_fields_def)

section \<open>Get by identifier\<close>

text \<open>
  C7, as stated, at an identifier that is no ObjectId: the store holds no category at
  all, and \<^verbatim>\<open>get_category\<close> on the string \<^verbatim>\<open>abc\<close> raises \<^verbatim>\<open>InvalidId\<close>, which is
  not the 404 error.
\<close>

theorem get_category_malformed_id:
  "get_category empty_db ''abc'' = Inl InvalidId
   \<and> get_category empty_db ''abc'' \<noteq> Inl (HTTPException 404 ''Category not found'')"
  by (simp add: get_category_def abc_invalid)

text \<open>
  C7, amended. For every identifier string that \<^verbatim>\<open>ObjectId\<close> accepts and that is the
  \<^verbatim>\<open>_id\<close> of no stored category (respectively product), \<^verbatim>\<open>get_category\<close>
  (respectively \<^verbatim>\<open>get_product\<close>) raises the 404 error; for a string that
  \<^verbatim>\<open>ObjectId\<close> rejects both raise its error.
\<close>

theorem get_by_id_NotFound:
  "(ObjectId s = Inr i \<and> i \<notin> set (map ident (categories_collection d))
      \<longrightarrow> get_category d s = Inl (HTTPException 404 ''Category not found''))
   \<and> (ObjectId s = Inr i \<and> i \<notin> set (map ident (products_collection d))
      \<longrightarrow> get_product d s = Inl (HTTPException 404 ''Product not found''))
   \<and> (ObjectId s = Inl e \<longrightarrow> get_category d s = Inl e \<and> get_product d s = Inl e)"
  by (auto simp: get_category_def get_product_def find_one_absent)

theorem get_by_id_NotFound_witness:
  "get_category menu ''65a1b2c3d4e5f6a7b8c9d0e2'' = Inl (HTTPException 404 ''Category not found'')
   \<and> get_product menu ''65a1b2c3d4e5f6a7b8c9d0e1'' = Inl (HTTPException 404 ''Product not found'')
   \<and> get_product menu ''abc'' = Inl InvalidId"
proof -
  have c: "ObjectId ''65a1b2c3d4e5f6a7b8c9d0e2'' = Inr cola_oid
           \<and> cola_oid \<notin> set (map ident (categories_collection menu))"
    using cola_id_str cola_not_a_category by simp
  have p: "ObjectId ''65a1b2c3d4e5f6a7b8c9d0e1'' = Inr drinks_oid
           \<and> drinks_oid \<notin> set (map ident (products_collection menu))"
    by (simp add: drinks_id_str menu_def cola_def drinks_oid_def cola_oid_def)
  show ?thesis
    using get_by_id_NotFound [where s = "''65a1b2c3d4e5f6a7b8c9d0e2''" and i = cola_oid and d = menu]
      get_by_id_NotFound [where s = "''65a1b2c3d4e5f6a7b8c9d0e1''" and i = drinks_oid and d = menu]
      get_by_id_NotFound [where s = "''abc''" and d = menu and e = InvalidId]
      c p abc_invalid
    by blast
qed

section \<open>Creating a product\<close>

text \<open>
  C3, as stated, at a category reference that is no ObjectId: \<^verbatim>\<open>create_product\<close>
  with \<^verbatim>\<open>category_id\<close> \<^verbatim>\<open>abc\<close> on the empty store persists nothing, but the error
  is \<^verbatim>\<open>InvalidId\<close>, not the 404 error.
\<close>

theorem create_product_malformed_category:
  "create_product empty_db 1700000060 cola_oid (cola_fields ''abc'') = (Inl InvalidId, empty_db)
   \<and> fst (create_product empty_db 1700000060 cola_oid (cola_fields ''abc''))
       \<noteq> Inl (HTTPException 404 ''Category not found'')"
  by (simp add: create_product_def cola_fields_def abc_invalid)

text \<open>
  C3, amended. When \<^verbatim>\<open>ObjectId\<close> accepts the payload's \<^verbatim>\<open>category_id\<close> and no
  stored category has that \<^verbatim>\<open>_id\<close>, \<^verbatim>\<open>create_product\<close> raises the 404 error
  ``Category not found'' and returns the store unchanged; when \<^verbatim>\<open>ObjectId\<close> rejects
  it, the error is that of \<^verbatim>\<open>ObjectId\<close> and the store is unchanged as well. The lookup
  comes before \<^verbatim>\<open>created_at\<close>, the insertion and its identifier.
\<close>

theorem create_product_category_missing:
  "(ObjectId (ProductCreate.category_id product) = Inr i
      \<and> i \<notin> set (map ident (categories_collection d))
    \<longrightarrow> create_product d now inserted_id product
          = (Inl (HTTPException 404 ''Category not found''), d))
   \<and> (ObjectId (ProductCreate.category_id product) = Inl e
    \<longrightarrow> create_product d now inserted_id product = (Inl e, d))"
  by (auto simp: create_product_def find_one_absent)

theorem create_product_category_missing_witness:
  "create_product menu 1700000120 [1, 2, 3] (cola_fields ''65a1b2c3d4e5f6a7b8c9d0e2'')
     = (Inl (HTTPException 404 ''Category not found''), menu)
   \<and> create_product menu 1700000120 [1, 2, 3] (cola_fields ''abc'') = (Inl InvalidId, menu)"
proof -
  have 1: "ObjectId (ProductCreate.category_id (cola_fields ''65a1b2c3d4e5f6a7b8c9d0e2''))
             = Inr cola_oid
           \<and> cola_oid \<notin> set (map ident (categories_collection menu))"
    using cola_id_str cola_not_a_category by (simp add: cola_fields_def)
  have 2: "ObjectId (ProductCreate.category_id (cola_fields ''abc'')) = Inl InvalidId"
    using abc_invalid by (simp add: cola_fields_def)
  show ?thesis
    using create_product_category_missing
            [where product = "cola_fields ''65a1b2c3d4e5f6a7b8c9d0e2''" and i = cola_oid
               and d = menu]
      create_product_category_missing
            [where product = "cola_fields ''abc''" and d = menu and e = InvalidId]
      1 2
    by blast
qed

section \<open>Changing a product's category\<close>

lemma get_category_id_None:
  "\<forall>s. PCategory_id s \<notin> set fs \<Longrightarrow> get_category_id fs = None"
  by (induction fs rule: get_category_id.induct) auto

lemma in_product_update_data:
  "f \<in> set (List.map_filter (\<lambda>v. v) (ProductUpdate_dict product))
     \<longleftrightarrow> Some f \<in> set (ProductUpdate_dict product)"
  by (simp add: set_map_filter_Some)

lemma update_data_category_id:
  "get_category_id (List.map_filter (\<lambda>v. v) (ProductUpdate_dict product))
     = ProductUpdate.category_id product"
proof (cases "ProductUpdate.category_id product")
  case None
  then have "\<forall>s. Some (PCategory_id s) \<notin> set (ProductUpdate_dict product)"
    by (simp add: ProductUpdate_dict_def Some_eq_map_option)
  then have "\<forall>s. PCategory_id s \<notin> set (List.map_filter (\<lambda>v. v) (ProductUpdate_dict product))"
    by (simp add: in_product_update_data)
  then show ?thesis
    using None by (simp add: get_category_id_None)
next
  case (Some s)
  then show ?thesis by (simp add: ProductUpdate_dict_def)
qed

lemma update_data_nonempty:
  "ProductUpdate.category_id product = Some s
     \<Longrightarrow> List.map_filter (\<lambda>v. v) (ProductUpdate_dict product) \<noteq> []"
  by (simp add: ProductUpdate_dict_def)

text \<open>
  C4, as stated, at a category reference that is no ObjectId: updating the stored product
  Cola with \<^verbatim>\<open>category_id\<close> \<^verbatim>\<open>abc\<close> leaves the store as it was, but the error is
  \<^verbatim>\<open>InvalidId\<close>, not the 404 error.
\<close>

theorem update_product_malformed_category:
  "update_product menu ''65a1b2c3d4e5f6a7b8c9d0e2''
     (no_product_fields\<lparr>ProductUpdate.category_id := Some ''abc''\<rparr>)
   = (Inl InvalidId, menu)
   \<and> fst (update_product menu ''65a1b2c3d4e5f6a7b8c9d0e2''
            (no_product_fields\<lparr>ProductUpdate.category_id := Some ''abc''\<rparr>))
       \<noteq> Inl (HTTPException 404 ''Category not found'')"
  by (simp add: update_product_def ProductUpdate_dict_def no_product_fields_def abc_invalid)

text \<open>
  C4, amended. For every product identifier and every payload that supplies a
  \<^verbatim>\<open>category_id\<close> which \<^verbatim>\<open>ObjectId\<close> accepts and which is the \<^verbatim>\<open>_id\<close> of no
  stored category, \<^verbatim>\<open>update_product\<close> raises the 404 error ``Category not found'' and
  returns the store unchanged, so the product is as it was; when \<^verbatim>\<open>ObjectId\<close> rejects
  the supplied \<^verbatim>\<open>category_id\<close>, the error is that of \<^verbatim>\<open>ObjectId\<close> and the store is
  unchanged as well.
\<close>

theorem update_product_category_missing:
  "(ProductUpdate.category_id product = Some s \<and> ObjectId s = Inr i
      \<and> i \<notin> set (map ident (categories_collection d))
    \<longrightarrow> update_product d product_id product
          = (Inl (HTTPException 404 ''Category not found''), d))
   \<and> (ProductUpdate.category_id product = Some s \<and> ObjectId s = Inl e
    \<longrightarrow> update_product d product_id product = (Inl e, d))"
  by (auto simp: update_product_def Let_def update_data_nonempty update_data_category_id
      find_one_absent)

theorem update_product_category_missing_witness:
  "update_product menu ''65a1b2c3d4e5f6a7b8c9d0e2''
     (no_product_fields\<lparr>ProductUpdate.category_id := Some ''65a1b2c3d4e5f6a7b8c9d0e2''\<rparr>)
   = (Inl (HTTPException 404 ''Category not found''), menu)
   \<and> update_product menu ''65a1b2c3d4e5f6a7b8c9d0e2''
     (no_product_fields\<lparr>ProductUpdate.category_id := Some ''''\<rparr>)
   = (Inl InvalidId, menu)"
proof -
  have 1: "ProductUpdate.category_id
             (no_product_fields\<lparr>ProductUpdate.category_id := Some ''65a1b2c3d4e5f6a7b8c9d0e2''\<rparr>)
             = Some ''65a1b2c3d4e5f6a7b8c9d0e2''
           \<and> ObjectId ''65a1b2c3d4e5f6a7b8c9d0e2'' = Inr cola_oid
           \<and> cola_oid \<notin> set (map ident (categories_collection menu))"
    using cola_id_str cola_not_a_category by simp
  have 2: "ProductUpdate.category_id (no_product_fields\<lparr>ProductUpdate.category_id := Some ''''\<rparr>)
             = Some ''''
           \<and> ObjectId '''' = Inl InvalidId"
    by (simp add: ObjectId_def)
  show ?thesis
    using update_product_category_missing
            [where product = "no_product_fields\<lparr>ProductUpdate.category_id :=
                                Some ''65a1b2c3d4e5f6a7b8c9d0e2''\<rparr>"
               and s = "''65a1b2c3d4e5f6a7b8c9d0e2''" and i = cola_oid and d = menu]
      update_product_category_missing
            [where product = "no_product_fields\<lparr>ProductUpdate.category_id := Some ''''\<rparr>"
               and s = "''''" and d = menu and e = InvalidId]
      1 2
    by blast
qed

section \<open>Deleting a category\<close>

text \<open>
  C2, as stated, at an identifier that is no ObjectId: no product references
  \<^verbatim>\<open>abc\<close> and \<^verbatim>\<open>abc\<close> names no category, yet \<^verbatim>\<open>delete_category\<close> raises
  \<^verbatim>\<open>InvalidId\<close>, not the 404 error.
\<close>

theorem delete_category_malformed_id:
  "delete_category empty_db ''abc'' = (Inl InvalidId, empty_db)
   \<and> fst (delete_category empty_db ''abc'') \<noteq> Inl (HTTPException 404 ''Category not found'')"
  by (simp add: delete_category_def count_documents_def empty_db_def abc_invalid)

lemma unreferenced_count:
  assumes "ObjectId s = Inr i"
    and "\<forall>p\<in>set products. ObjectId (ProductCreate.category_id (content p)) \<noteq> Inr i"
  shows "count_documents (\<lambda>p. ProductCreate.category_id (content p) = s) products = 0"
  using assms by (auto simp: count_documents_def filter_empty_conv)

text \<open>
  C2, amended. \<^verbatim>\<open>delete_category\<close> first counts the products whose
  \<^verbatim>\<open>category_id\<close> is the given string. With a count above zero it raises the Conflict
  error, an \<^verbatim>\<open>HTTPException\<close> with the detail ``Cannot delete category with products'',
  and returns the store unchanged. With a count of zero it goes on: an identifier that
  \<^verbatim>\<open>ObjectId\<close> accepts and that is the \<^verbatim>\<open>_id\<close> of no category gives the 404 error
  and the store unchanged; one that \<^verbatim>\<open>ObjectId\<close> rejects gives the error of
  \<^verbatim>\<open>ObjectId\<close> and the store unchanged. Deleting a category that no product
  references, none of the stored \<^verbatim>\<open>category_id\<close> strings being read by \<^verbatim>\<open>ObjectId\<close>
  as its \<^verbatim>\<open>_id\<close>, succeeds and leaves the store without that category.
\<close>

theorem delete_category_cases:
  "(count_documents (\<lambda>p. ProductCreate.category_id (content p) = s) (products_collection d) > 0
      \<longrightarrow> delete_category d s
            = (Inl (HTTPException 400 ''Cannot delete category with products''), d))
   \<and> (count_documents (\<lambda>p. ProductCreate.category_id (content p) = s) (products_collection d) = 0
        \<and> ObjectId s = Inr i \<and> i \<notin> set (map ident (categories_collection d))
      \<longrightarrow> delete_category d s = (Inl (HTTPException 404 ''Category not found''), d))
   \<and> (count_documents (\<lambda>p. ProductCreate.category_id (content p) = s) (products_collection d) = 0
        \<and> ObjectId s = Inl e
      \<longrightarrow> delete_category d s = (Inl e, d))
   \<and> (ObjectId s = Inr i
        \<and> find_one (\<lambda>c. ident c = i) (categories_collection d) = Some c
        \<and> (\<forall>p\<in>set (products_collection d).
              ObjectId (ProductCreate.category_id (content p)) \<noteq> Inr i)
      \<longrightarrow> delete_category d s
            = (Inr ''Category deleted successfully'',
               d\<lparr>categories_collection := remove1 c (categories_collection d)\<rparr>))"
proof (intro conjI impI)
  assume "ObjectId s = Inr i
          \<and> find_one (\<lambda>c. ident c = i) (categories_collection d) = Some c
          \<and> (\<forall>p\<in>set (products_collection d).
                ObjectId (ProductCreate.category_id (content p)) \<noteq> Inr i)"
  then show "delete_category d s
               = (Inr ''Category deleted successfully'',
                  d\<lparr>categories_collection := remove1 c (categories_collection d)\<rparr>)"
    using unreferenced_count [of s i "products_collection d"]
    by (simp add: delete_category_def delete_one_find)
qed (simp_all add: delete_category_def delete_one_find find_one_absent)

theorem delete_category_cases_witness:
  "delete_category menu ''65a1b2c3d4e5f6a7b8c9d0e1''
     = (Inl (HTTPException 400 ''Cannot delete category with products''), menu)
   \<and> delete_category menu ''65a1b2c3d4e5f6a7b8c9d0e2''
     = (Inl (HTTPException 404 ''Category not found''), menu)
   \<and> delete_category menu ''abc'' = (Inl InvalidId, menu)
   \<and> delete_category
       \<lparr>categories_collection = [numbered_category 0, drinks], products_collection = [cola, ayran]\<rparr>
       ''65a1b2c3d4e5f6a7b8c90000''
     = (Inr ''Category deleted successfully'', full_menu)"
proof -
  let ?refs = "\<lambda>s d. count_documents (\<lambda>p. ProductCreate.category_id (content p) = s)
                  (products_collection d)"
  let ?d = "\<lparr>categories_collection = [numbered_category 0, drinks],
             products_collection = [cola, ayran]\<rparr>"
  let ?zero = "[101, 161, 178, 195, 212, 229, 246, 167, 184, 201, 0, 0] :: oid"
  have cats: "ProductCreate.category_id (content cola) = ''65a1b2c3d4e5f6a7b8c9d0e1''
              \<and> ProductCreate.category_id (content ayran) = ''65a1b2c3d4e5f6a7b8c9d0e1''"
    by (simp add: cola_def cola_fields_def ProductCreate.extend_def ayran_def)
  have zero: "ObjectId ''65a1b2c3d4e5f6a7b8c90000'' = Inr ?zero"
    by (simp add: ObjectId_def digit_value_def isspace_def)
  have 1: "?refs ''65a1b2c3d4e5f6a7b8c9d0e1'' menu > 0"
    by (simp add: count_documents_def menu_def cats)
  have 2: "?refs ''65a1b2c3d4e5f6a7b8c9d0e2'' menu = 0
           \<and> ObjectId ''65a1b2c3d4e5f6a7b8c9d0e2'' = Inr cola_oid
           \<and> cola_oid \<notin> set (map ident (categories_collection menu))"
    using cola_id_str cola_not_a_category by (simp add: count_documents_def menu_def cats)
  have 3: "?refs ''abc'' menu = 0 \<and> ObjectId ''abc'' = Inl InvalidId"
    using abc_invalid by (simp add: count_documents_def menu_def cats)
  have 4: "ObjectId ''65a1b2c3d4e5f6a7b8c90000'' = Inr ?zero
           \<and> find_one (\<lambda>c. ident c = ?zero) (categories_collection ?d) = Some (numbered_category 0)
           \<and> (\<forall>p\<in>set (products_collection ?d).
                 ObjectId (ProductCreate.category_id (content p)) \<noteq> Inr ?zero)"
    using zero drinks_id_str
    by (simp add: find_one_def numbered_category_def cats drinks_oid_def)
  have 5: "?d\<lparr>categories_collection := remove1 (numbered_category 0) (categories_collection ?d)\<rparr>
             = full_menu"
    by (simp add: full_menu_def)
  have a: "delete_category menu ''65a1b2c3d4e5f6a7b8c9d0e1''
             = (Inl (HTTPException 400 ''Cannot delete category with products''), menu)"
    using delete_category_cases [where s = "''65a1b2c3d4e5f6a7b8c9d0e1''" and d = menu] 1
    by blast
  have b: "delete_category menu ''65a1b2c3d4e5f6a7b8c9d0e2''
             = (Inl (HTTPException 404 ''Category not found''), menu)"
    using delete_category_cases [where s = "''65a1b2c3d4e5f6a7b8c9d0e2''" and d = menu
                                   and i = cola_oid] 2
    by blast
  have c: "delete_category menu ''abc'' = (Inl InvalidId, menu)"
    using delete_category_cases [where s = "''abc''" and d = menu and e = InvalidId] 3
    by blast
  have "delete_category ?d ''65a1b2c3d4e5f6a7b8c90000''
          = (Inr ''Category deleted successfully'',
             ?d\<lparr>categories_collection := remove1 (numbered_category 0) (categories_collection ?d)\<rparr>)"
    using delete_category_cases [where s = "''65a1b2c3d4e5f6a7b8c90000''" and d = ?d
                                   and i = ?zero and c = "numbered_category 0"] 4
    by blast
  then have d: "delete_category ?d ''65a1b2c3d4e5f6a7b8c90000''
                  = (Inr ''Category deleted successfully'', full_menu)"
    unfolding 5 .
  from a b c d show ?thesis by simp
qed

section \<open>Login and tokens\<close>
















section \<open>Listing\<close>

lemma find_sort_to_list_prefix:
  "\<exists>rest. length (find_sort_to_list query key n coll) = min n (length (filter query coll))
      \<and> mset (find_sort_to_list query key n coll @ rest) = mset (filter query coll)
      \<and> sorted (map key (find_sort_to_list query key n coll @ rest))"
proof (intro exI conjI)
  let ?sorted = "sort_key key (filter query coll)"
  show "length (find_sort_to_list query key n coll) = min n (length (filter query coll))"
    by (simp add: find_sort_to_list_def min.commute)
  show "mset (find_sort_to_list query key n coll @ drop n ?sorted) = mset (filter query coll)"
    by (simp add: find_sort_to_list_def)
  show "sorted (map key (find_sort_to_list query key n coll @ drop n ?sorted))"
    by (simp add: find_sort_to_list_def)
qed

lemma all_within_limit:
  assumes "length docs = min n (length matching)" and "mset (docs @ rest) = mset matching"
    and "length matching \<le> n"
  shows "mset docs = mset matching"
proof -
  have "length (docs @ rest) = length matching"
    using assms(2) by (metis size_mset)
  with assms(1,3) have "rest = []" by simp
  with assms(2) show ?thesis by simp
qed

lemma get_categories_listing:
  "\<exists>docs rest.
     get_categories d active_only = map (\<lambda>c. serialize_doc (Some c)) docs
     \<and> length docs
         = min 100 (length (filter (\<lambda>c. active_only \<longrightarrow> CategoryCreate.is_active (content c))
                              (categories_collection d)))
     \<and> mset (docs @ rest)
         = mset (filter (\<lambda>c. active_only \<longrightarrow> CategoryCreate.is_active (content c))
                   (categories_collection d))
     \<and> sorted (map (\<lambda>c. CategoryCreate.sort_order (content c)) (docs @ rest))"
proof -
  let ?query = "if active_only then (\<lambda>c. CategoryCreate.is_active (content c) = True)
                else (\<lambda>c :: Category document. True)"
  have q: "?query = (\<lambda>c. active_only \<longrightarrow> CategoryCreate.is_active (content c))"
    by auto
  have g: "get_categories d active_only
             = map (\<lambda>c. serialize_doc (Some c))
                 (find_sort_to_list ?query (\<lambda>c. CategoryCreate.sort_order (content c)) 100
                    (categories_collection d))"
    by (simp add: get_categories_def Let_def)
  show ?thesis
    using find_sort_to_list_prefix
            [of ?query "\<lambda>c. CategoryCreate.sort_order (content c)" 100 "categories_collection d"]
    unfolding g q by blast
qed

lemma get_products_listing:
  "\<exists>docs rest.
     get_products d None active_only = map (\<lambda>p. serialize_doc (Some p)) docs
     \<and> length docs
         = min 1000 (length (filter (\<lambda>p. active_only \<longrightarrow> ProductCreate.is_active (content p))
                               (products_collection d)))
     \<and> mset (docs @ rest)
         = mset (filter (\<lambda>p. active_only \<longrightarrow> ProductCreate.is_active (content p))
                   (products_collection d))
     \<and> sorted (map (\<lambda>p. ProductCreate.sort_order (content p)) (docs @ rest))"
proof -
  let ?query = "if active_only
                then (\<lambda>p. True \<and> ProductCreate.is_active (content p) = True)
                else (\<lambda>p :: Product document. True)"
  have q: "?query = (\<lambda>p. active_only \<longrightarrow> ProductCreate.is_active (content p))"
    by auto
  have g: "get_products d None active_only
             = map (\<lambda>p. serialize_doc (Some p))
                 (find_sort_to_list ?query (\<lambda>p. ProductCreate.sort_order (content p)) 1000
                    (products_collection d))"
    by (simp add: get_products_def Let_def)
  show ?thesis
    using find_sort_to_list_prefix
            [of ?query "\<lambda>p. ProductCreate.sort_order (content p)" 1000 "products_collection d"]
    unfolding g q by blast
qed

lemma length_get_categories:
  "length (get_categories d False) = min 100 (length (categories_collection d))"
  by (simp add: get_categories_def find_sort_to_list_def min.commute)

text \<open>
  C6, as stated, on a store of 101 categories: the listing with \<^verbatim>\<open>active_only\<close> false
  returns 100 entries, not all 101.
\<close>

theorem get_categories_truncated:
  "length (categories_collection (many_categories 101)) = 101
   \<and> length (get_categories (many_categories 101) False) = 100"
  by (simp add: length_get_categories many_categories_def)

text \<open>
  C6, amended. \<^verbatim>\<open>get_categories\<close> returns the serialised form of the first 100, and
  \<^verbatim>\<open>get_products\<close> without a category filter of the first 1000, documents of an
  ordering by ascending \<^verbatim>\<open>sort_order\<close> of the matching documents: the stored documents
  with \<^verbatim>\<open>is_active\<close> true when \<^verbatim>\<open>active_only\<close> is true, all stored documents
  otherwise. So the result is sorted, every entry is a matching document, and when no more
  than 100 (respectively 1000) documents match, the result holds exactly the matching ones.
\<close>

theorem listing_sorted_limited:
  "(\<exists>docs rest.
      get_categories d active_only = map (\<lambda>c. serialize_doc (Some c)) docs
      \<and> length docs
          = min 100 (length (filter (\<lambda>c. active_only \<longrightarrow> CategoryCreate.is_active (content c))
                               (categories_collection d)))
      \<and> mset (docs @ rest)
          = mset (filter (\<lambda>c. active_only \<longrightarrow> CategoryCreate.is_active (content c))
                    (categories_collection d))
      \<and> sorted (map (\<lambda>c. CategoryCreate.sort_order (content c)) (docs @ rest))
      \<and> (length (filter (\<lambda>c. active_only \<longrightarrow> CategoryCreate.is_active (content c))
                    (categories_collection d)) \<le> 100
           \<longrightarrow> mset docs
                 = mset (filter (\<lambda>c. active_only \<longrightarrow> CategoryCreate.is_active (content c))
                           (categories_collection d))))
   \<and> (\<exists>docs rest.
      get_products d None active_only = map (\<lambda>p. serialize_doc (Some p)) docs
      \<and> length docs
          = min 1000 (length (filter (\<lambda>p. active_only \<longrightarrow> ProductCreate.is_active (content p))
                                (products_collection d)))
      \<and> mset (docs @ rest)
          = mset (filter (\<lambda>p. active_only \<longrightarrow> ProductCreate.is_active (content p))
                    (products_collection d))
      \<and> sorted (map (\<lambda>p. ProductCreate.sort_order (content p)) (docs @ rest))
      \<and> (length (filter (\<lambda>p. active_only \<longrightarrow> ProductCreate.is_active (content p))
                    (products_collection d)) \<le> 1000
           \<longrightarrow> mset docs
                 = mset (filter (\<lambda>p. active_only \<longrightarrow> ProductCreate.is_active (content p))
                           (products_collection d))))"
proof (rule conjI)
  obtain docs rest where
    "get_categories d active_only = map (\<lambda>c. serialize_doc (Some c)) docs"
    "length docs
       = min 100 (length (filter (\<lambda>c. active_only \<longrightarrow> CategoryCreate.is_active (content c))
                            (categories_collection d)))"
    "mset (docs @ rest)
       = mset (filter (\<lambda>c. active_only \<longrightarrow> CategoryCreate.is_active (content c))
                 (categories_collection d))"
    "sorted (map (\<lambda>c. CategoryCreate.sort_order (content c)) (docs @ rest))"
    using get_categories_listing by blast
  then show "\<exists>docs rest.
      get_categories d active_only = map (\<lambda>c. serialize_doc (Some c)) docs
      \<and> length docs
          = min 100 (length (filter (\<lambda>c. active_only \<longrightarrow> CategoryCreate.is_active (content c))
                               (categories_collection d)))
      \<and> mset (docs @ rest)
          = mset (filter (\<lambda>c. active_only \<longrightarrow> CategoryCreate.is_active (content c))
                    (categories_collection d))
      \<and> sorted (map (\<lambda>c. CategoryCreate.sort_order (content c)) (docs @ rest))
      \<and> (length (filter (\<lambda>c. active_only \<longrightarrow> CategoryCreate.is_active (content c))
                    (categories_collection d)) \<le> 100
           \<longrightarrow> mset docs
                 = mset (filter (\<lambda>c. active_only \<longrightarrow> CategoryCreate.is_active (content c))
                           (categories_collection d)))"
    using all_within_limit [of docs 100 _ rest] by blast
next
  obtain docs rest where
    "get_products d None active_only = map (\<lambda>p. serialize_doc (Some p)) docs"
    "length docs
       = min 1000 (length (filter (\<lambda>p. active_only \<longrightarrow> ProductCreate.is_active (content p))
                             (products_collection d)))"
    "mset (docs @ rest)
       = mset (filter (\<lambda>p. active_only \<longrightarrow> ProductCreate.is_active (content p))
                 (products_collection d))"
    "sorted (map (\<lambda>p. ProductCreate.sort_order (content p)) (docs @ rest))"
    using get_products_listing by blast
  then show "\<exists>docs rest.
      get_products d None active_only = map (\<lambda>p. serialize_doc (Some p)) docs
      \<and> length docs
          = min 1000 (length (filter (\<lambda>p. active_only \<longrightarrow> ProductCreate.is_active (content p))
                                (products_collection d)))
      \<and> mset (docs @ rest)
          = mset (filter (\<lambda>p. active_only \<longrightarrow> ProductCreate.is_active (content p))
                    (products_collection d))
      \<and> sorted (map (\<lambda>p. ProductCreate.sort_order (content p)) (docs @ rest))
      \<and> (length (filter (\<lambda>p. active_only \<longrightarrow> ProductCreate.is_active (content p))
                    (products_collection d)) \<le> 1000
           \<longrightarrow> mset docs
                 = mset (filter (\<lambda>p. active_only \<longrightarrow> ProductCreate.is_active (content p))
                           (products_collection d)))"
    using all_within_limit [of docs 1000 _ rest] by blast
qed

theorem listing_sorted_limited_witness:
  "get_categories menu True = [serialize_doc (Some drinks)]
   \<and> get_products menu None True = [serialize_doc (Some cola)]"
proof -
  have mc: "filter (\<lambda>c. True \<longrightarrow> CategoryCreate.is_active (content c)) (categories_collection menu)
              = [drinks]"
    by (simp add: menu_def drinks_def drinks_fields_def CategoryCreate.extend_def)
  have mp: "filter (\<lambda>p. True \<longrightarrow> ProductCreate.is_active (content p)) (products_collection menu)
              = [cola]"
    by (simp add: menu_def cola_def cola_fields_def ProductCreate.extend_def)
  from listing_sorted_limited [of menu True]
  obtain cdocs crest pdocs prest where
    c: "get_categories menu True = map (\<lambda>c. serialize_doc (Some c)) cdocs"
       "length (filter (\<lambda>c. True \<longrightarrow> CategoryCreate.is_active (content c))
                  (categories_collection menu)) \<le> 100
          \<longrightarrow> mset cdocs = mset (filter (\<lambda>c. True \<longrightarrow> CategoryCreate.is_active (content c))
                                    (categories_collection menu))"
    and p: "get_products menu None True = map (\<lambda>p. serialize_doc (Some p)) pdocs"
       "length (filter (\<lambda>p. True \<longrightarrow> ProductCreate.is_active (content p))
                  (products_collection menu)) \<le> 1000
          \<longrightarrow> mset pdocs = mset (filter (\<lambda>p. True \<longrightarrow> ProductCreate.is_active (content p))
                                    (products_collection menu))"
    by blast
  from c(2) have "cdocs = [drinks]" unfolding mc by simp
  moreover from p(2) have "pdocs = [cola]" unfolding mp by simp
  ultimately show ?thesis using c(1) p(1) by simp
qed

section \<open>What an update leaves alone\<close>

lemma update_one_list_all2:
  assumes "\<And>x. R x x" and "\<And>x. R x (upd x)"
  shows "list_all2 R coll (snd (update_one query upd coll))"
proof (induction coll)
  case Nil
  then show ?case by simp
next
  case (Cons d ds)
  obtain n ds' where u: "update_one query upd ds = (n, ds')"
    by (cases "update_one query upd ds")
  have "list_all2 R ds ds"
    using assms(1) by (simp add: list_all2_same)
  moreover have "list_all2 R ds ds'"
    using Cons u by simp
  ultimately show ?case
    using assms u by simp
qed

lemma in_category_update_data:
  "f \<in> set (List.map_filter (\<lambda>v. v) (CategoryUpdate_dict category))
     \<longleftrightarrow> Some f \<in> set (CategoryUpdate_dict category)"
  by (simp add: set_map_filter_Some)

lemma fold_set_category_field:
  "Category.created_at (fold set_category_field fs c) = Category.created_at c
   \<and> ((\<forall>v. CName_tr v \<notin> set fs)
        \<longrightarrow> CategoryCreate.name_tr (fold set_category_field fs c) = CategoryCreate.name_tr c)
   \<and> ((\<forall>v. CName_en v \<notin> set fs)
        \<longrightarrow> CategoryCreate.name_en (fold set_category_field fs c) = CategoryCreate.name_en c)
   \<and> ((\<forall>v. CSort_order v \<notin> set fs)
        \<longrightarrow> CategoryCreate.sort_order (fold set_category_field fs c)
              = CategoryCreate.sort_order c)
   \<and> ((\<forall>v. CIs_active v \<notin> set fs)
        \<longrightarrow> CategoryCreate.is_active (fold set_category_field fs c)
              = CategoryCreate.is_active c)"
proof (induction fs arbitrary: c)
  case Nil
  then show ?case by simp
next
  case (Cons f fs)
  show ?case
    using Cons [of "set_category_field f c"] by (cases f) auto
qed

lemma set_category_frame:
  "category_frame u c (set_category (List.map_filter (\<lambda>v. v) (CategoryUpdate_dict u)) c)"
proof -
  let ?fs = "List.map_filter (\<lambda>v. v) (CategoryUpdate_dict u)"
  have "CategoryUpdate.name_tr u = None \<Longrightarrow> \<forall>v. CName_tr v \<notin> set ?fs"
    and "CategoryUpdate.name_en u = None \<Longrightarrow> \<forall>v. CName_en v \<notin> set ?fs"
    and "CategoryUpdate.sort_order u = None \<Longrightarrow> \<forall>v. CSort_order v \<notin> set ?fs"
    and "CategoryUpdate.is_active u = None \<Longrightarrow> \<forall>v. CIs_active v \<notin> set ?fs"
    unfolding in_category_update_data
    by (simp_all add: CategoryUpdate_dict_def Some_eq_map_option)
  then show ?thesis
    using fold_set_category_field [of ?fs "content c"]
    by (simp add: category_frame_def set_category_def)
qed

lemma update_category_frame:
  "list_all2 (category_frame u) (categories_collection d)
     (categories_collection (snd (update_category d cat_id u)))
   \<and> products_collection (snd (update_category d cat_id u)) = products_collection d"
proof -
  let ?fs = "List.map_filter (\<lambda>v. v) (CategoryUpdate_dict u)"
  have same: "list_all2 (category_frame u) (categories_collection d) (categories_collection d)"
    by (simp add: list_all2_same category_frame_def)
  show ?thesis
  proof (cases "ObjectId cat_id")
    case (Inl e)
    then show ?thesis
      using same by (simp add: update_category_def Let_def)
  next
    case (Inr i)
    obtain n coll where u: "update_one (\<lambda>c. ident c = i) (set_category ?fs)
                              (categories_collection d) = (n, coll)"
      by (cases "update_one (\<lambda>c. ident c = i) (set_category ?fs) (categories_collection d)")
    have "list_all2 (category_frame u) (categories_collection d)
            (snd (update_one (\<lambda>c. ident c = i) (set_category ?fs) (categories_collection d)))"
      by (rule update_one_list_all2) (simp add: category_frame_def, rule set_category_frame)
    then have "list_all2 (category_frame u) (categories_collection d) coll"
      using u by simp
    then show ?thesis
      using same Inr u by (simp add: update_category_def Let_def)
  qed
qed

lemma fold_set_product_created_at:
  "Product.created_at (fold set_product_field fs p) = Product.created_at p"
proof (induction fs arbitrary: p)
  case Nil
  then show ?case by simp
next
  case (Cons f fs)
  then show ?case by (cases f) simp_all
qed

lemma fold_set_product_category_id:
  "\<forall>v. PCategory_id v \<notin> set fs
     \<Longrightarrow> ProductCreate.category_id (fold set_product_field fs p) = ProductCreate.category_id p"
proof (induction fs arbitrary: p)
  case Nil
  then show ?case by simp
next
  case (Cons f fs)
  then show ?case by (cases f) auto
qed

lemma fold_set_product_name_tr:
  "\<forall>v. PName_tr v \<notin> set fs
     \<Longrightarrow> ProductCreate.name_tr (fold set_product_field fs p) = ProductCreate.name_tr p"
proof (induction fs arbitrary: p)
  case Nil
  then show ?case by simp
next
  case (Cons f fs)
  then show ?case by (cases f) auto
qed

lemma fold_set_product_name_en:
  "\<forall>v. PName_en v \<notin> set fs
     \<Longrightarrow> ProductCreate.name_en (fold set_product_field fs p) = ProductCreate.name_en p"
proof (induction fs arbitrary: p)
  case Nil
  then show ?case by simp
next
  case (Cons f fs)
  then show ?case by (cases f) auto
qed

lemma fold_set_product_description_tr:
  "\<forall>v. PDescription_tr v \<notin> set fs
     \<Longrightarrow> ProductCreate.description_tr (fold set_product_field fs p) = ProductCreate.description_tr p"
proof (induction fs arbitrary: p)
  case Nil
  then show ?case by simp
next
  case (Cons f fs)
  then show ?case by (cases f) auto
qed

lemma fold_set_product_description_en:
  "\<forall>v. PDescription_en v \<notin> set fs
     \<Longrightarrow> ProductCreate.description_en (fold set_product_field fs p) = ProductCreate.description_en p"
proof (induction fs arbitrary: p)
  case Nil
  then show ?case by simp
next
  case (Cons f fs)
  then show ?case by (cases f) auto
qed

lemma fold_set_product_price:
  "\<forall>v. PPrice v \<notin> set fs
     \<Longrightarrow> ProductCreate.price (fold set_product_field fs p) = ProductCreate.price p"
proof (induction fs arbitrary: p)
  case Nil
  then show ?case by simp
next
  case (Cons f fs)
  then show ?case by (cases f) auto
qed

lemma fold_set_product_image_url:
  "\<forall>v. PImage_url v \<notin> set fs
     \<Longrightarrow> ProductCreate.image_url (fold set_product_field fs p) = ProductCreate.image_url p"
proof (induction fs arbitrary: p)
  case Nil
  then show ?case by simp
next
  case (Cons f fs)
  then show ?case by (cases f) auto
qed

lemma fold_set_product_sort_order:
  "\<forall>v. PSort_order v \<notin> set fs
     \<Longrightarrow> ProductCreate.sort_order (fold set_product_field fs p) = ProductCreate.sort_order p"
proof (induction fs arbitrary: p)
  case Nil
  then show ?case by simp
next
  case (Cons f fs)
  then show ?case by (cases f) auto
qed

lemma fold_set_product_is_active:
  "\<forall>v. PIs_active v \<notin> set fs
     \<Longrightarrow> ProductCreate.is_active (fold set_product_field fs p) = ProductCreate.is_active p"
proof (induction fs arbitrary: p)
  case Nil
  then show ?case by simp
next
  case (Cons f fs)
  then show ?case by (cases f) auto
qed

lemmas fold_set_product_field =
  fold_set_product_created_at fold_set_product_category_id fold_set_product_name_tr fold_set_product_name_en fold_set_product_description_tr
  fold_set_product_description_en fold_set_product_price fold_set_product_image_url fold_set_product_sort_order fold_set_product_is_active

lemma fold_set_product_field_keeps_value:
  "(ProductCreate.description_tr p \<noteq> None
      \<longrightarrow> ProductCreate.description_tr (fold set_product_field fs p) \<noteq> None)
   \<and> (ProductCreate.description_en p \<noteq> None
      \<longrightarrow> ProductCreate.description_en (fold set_product_field fs p) \<noteq> None)
   \<and> (ProductCreate.image_url p \<noteq> None
      \<longrightarrow> ProductCreate.image_url (fold set_product_field fs p) \<noteq> None)"
proof (induction fs arbitrary: p)
  case Nil
  then show ?case by simp
next
  case (Cons f fs)
  show ?case
    using Cons [of "set_product_field f p"] by (cases f) simp_all
qed

lemma set_product_frame:
  "product_frame u p (set_product (List.map_filter (\<lambda>v. v) (ProductUpdate_dict u)) p)"
proof -
  let ?fs = "List.map_filter (\<lambda>v. v) (ProductUpdate_dict u)"
  have "ProductUpdate.category_id u = None \<Longrightarrow> \<forall>v. PCategory_id v \<notin> set ?fs"
    and "ProductUpdate.name_tr u = None \<Longrightarrow> \<forall>v. PName_tr v \<notin> set ?fs"
    and "ProductUpdate.name_en u = None \<Longrightarrow> \<forall>v. PName_en v \<notin> set ?fs"
    and "ProductUpdate.description_tr u = None \<Longrightarrow> \<forall>v. PDescription_tr v \<notin> set ?fs"
    and "ProductUpdate.description_en u = None \<Longrightarrow> \<forall>v. PDescription_en v \<notin> set ?fs"
    and "ProductUpdate.price u = None \<Longrightarrow> \<forall>v. PPrice v \<notin> set ?fs"
    and "ProductUpdate.image_url u = None \<Longrightarrow> \<forall>v. PImage_url v \<notin> set ?fs"
    and "ProductUpdate.sort_order u = None \<Longrightarrow> \<forall>v. PSort_order v \<notin> set ?fs"
    and "ProductUpdate.is_active u = None \<Longrightarrow> \<forall>v. PIs_active v \<notin> set ?fs"
    unfolding in_product_update_data
    by (simp_all add: ProductUpdate_dict_def Some_eq_map_option)
  then show ?thesis
    using fold_set_product_field_keeps_value [of "content p" ?fs]
    by (simp add: product_frame_def set_product_def fold_set_product_field)
qed

lemma update_product_frame:
  "list_all2 (product_frame u) (products_collection d)
     (products_collection (snd (update_product d product_id u)))
   \<and> categories_collection (snd (update_product d product_id u)) = categories_collection d"
proof -
  let ?fs = "List.map_filter (\<lambda>v. v) (ProductUpdate_dict u)"
  have same: "list_all2 (product_frame u) (products_collection d) (products_collection d)"
    by (simp add: list_all2_same product_frame_def)
  show ?thesis
  proof (cases "ObjectId product_id")
    case (Inl e)
    then show ?thesis
      using same by (simp add: update_product_def Let_def split: option.splits sum.splits)
  next
    case (Inr i)
    obtain n coll where u: "update_one (\<lambda>c. ident c = i) (set_product ?fs)
                              (products_collection d) = (n, coll)"
      by (cases "update_one (\<lambda>c. ident c = i) (set_product ?fs) (products_collection d)")
    have "list_all2 (product_frame u) (products_collection d)
            (snd (update_one (\<lambda>c. ident c = i) (set_product ?fs) (products_collection d)))"
      by (rule update_one_list_all2) (simp add: product_frame_def, rule set_product_frame)
    then have "list_all2 (product_frame u) (products_collection d) coll"
      using u by simp
    then show ?thesis
      using same Inr u by (simp add: update_product_def Let_def split: option.splits sum.splits)
  qed
qed

text \<open>
  C10. Whatever the outcome of \<^verbatim>\<open>update_category\<close> and \<^verbatim>\<open>update_product\<close>, every
  stored document of the updated collection keeps its \<^verbatim>\<open>_id\<close>, its
  \<^verbatim>\<open>created_at\<close> and every field that is null in the payload, and the other
  collection is untouched; an optional field of a product (\<^verbatim>\<open>description_tr\<close>,
  \<^verbatim>\<open>description_en\<close>, \<^verbatim>\<open>image_url\<close>) that held a value before the update holds one
  after it, so no update sets it back to null.
\<close>

theorem update_null_means_unset:
  "list_all2 (category_frame cu) (categories_collection d)
     (categories_collection (snd (update_category d cat_id cu)))
   \<and> products_collection (snd (update_category d cat_id cu)) = products_collection d
   \<and> list_all2 (product_frame pu) (products_collection d)
       (products_collection (snd (update_product d product_id pu)))
   \<and> categories_collection (snd (update_product d product_id pu)) = categories_collection d"
  using update_category_frame [of cu d cat_id] update_product_frame [of pu d product_id]
  by simp

theorem update_null_means_unset_witness:
  "CategoryCreate.name_en
     (content (categories_collection
        (snd (update_category full_menu ''65a1b2c3d4e5f6a7b8c9d0e1''
                (no_category_fields\<lparr>CategoryUpdate.sort_order := Some 5\<rparr>))) ! 0))
     = ''Drinks''
   \<and> ProductCreate.description_tr
       (content (products_collection
          (snd (update_product full_menu ''65a1b2c3d4e5f6a7b8c9d0e3''
                  (no_product_fields\<lparr>ProductUpdate.name_en := Some ''Yoghurt drink''\<rparr>))) ! 1))
       = Some ''Soguk ayran''
   \<and> ProductCreate.image_url
       (content (products_collection
          (snd (update_product full_menu ''65a1b2c3d4e5f6a7b8c9d0e3''
                  (no_product_fields\<lparr>ProductUpdate.name_en := Some ''Yoghurt drink''\<rparr>))) ! 1))
       \<noteq> None"
proof -
  let ?cu = "no_category_fields\<lparr>CategoryUpdate.sort_order := Some 5\<rparr>"
  let ?pu = "no_product_fields\<lparr>ProductUpdate.name_en := Some ''Yoghurt drink''\<rparr>"
  let ?cs = "categories_collection (snd (update_category full_menu ''65a1b2c3d4e5f6a7b8c9d0e1'' ?cu))"
  let ?ps = "products_collection (snd (update_product full_menu ''65a1b2c3d4e5f6a7b8c9d0e3'' ?pu))"
  have c: "list_all2 (category_frame ?cu) (categories_collection full_menu) ?cs"
    and p: "list_all2 (product_frame ?pu) (products_collection full_menu) ?ps"
    using update_null_means_unset [of ?cu full_menu "''65a1b2c3d4e5f6a7b8c9d0e1''" ?pu
                                     "''65a1b2c3d4e5f6a7b8c9d0e3''"]
    by simp_all
  have "category_frame ?cu (categories_collection full_menu ! 0) (?cs ! 0)"
    using c by (rule list_all2_nthD) (simp add: full_menu_def)
  then have 1: "CategoryCreate.name_en (content (?cs ! 0)) = ''Drinks''"
    by (simp add: category_frame_def no_category_fields_def full_menu_def drinks_def
        drinks_fields_def CategoryCreate.extend_def)
  have "product_frame ?pu (products_collection full_menu ! 1) (?ps ! 1)"
    using p by (rule list_all2_nthD) (simp add: full_menu_def)
  then have 2: "ProductCreate.description_tr (content (?ps ! 1)) = Some ''Soguk ayran''"
    and 3: "ProductCreate.image_url (content (?ps ! 1)) \<noteq> None"
    by (simp_all add: product_frame_def no_product_fields_def full_menu_def ayran_def)
  from 1 2 3 show ?thesis by simp
qed

section \<open>Referential integrity\<close>

text \<open>
  C1 at a sequence of three operations on the empty store. Drinks is created and gets
  the identifier \<^verbatim>\<open>65a1b2c3d4e5f6a7b8c9d0e1\<close>. Cola is created with that identifier
  written in upper case: \<^verbatim>\<open>ObjectId\<close> reads both spellings as the same identifier, so
  the category is found and the product is stored with the upper-case string; the store
  has referential integrity. Deleting Drinks by its identifier then counts the products
  whose \<^verbatim>\<open>category_id\<close> equals the lower-case string, finds none and succeeds. The
  store that remains holds Cola and no category: its reference no longer resolves.
\<close>

theorem delete_category_orphans_product:
  "run_ops empty_db
     [Create_category 1700000000 drinks_oid drinks_fields,
      Create_product 1700000060 cola_oid (cola_fields ''65A1B2C3D4E5F6A7B8C9D0E1'')]
     = \<lparr>categories_collection = [drinks], products_collection = [cola_upper]\<rparr>
   \<and> referential_integrity \<lparr>categories_collection = [drinks], products_collection = [cola_upper]\<rparr>
   \<and> delete_category \<lparr>categories_collection = [drinks], products_collection = [cola_upper]\<rparr>
        ''65a1b2c3d4e5f6a7b8c9d0e1''
     = (Inr ''Category deleted successfully'',
        \<lparr>categories_collection = [], products_collection = [cola_upper]\<rparr>)
   \<and> \<not> referential_integrity \<lparr>categories_collection = [], products_collection = [cola_upper]\<rparr>"
proof -
  have cat: "ProductCreate.category_id (content cola_upper) = ''65A1B2C3D4E5F6A7B8C9D0E1''"
    by (simp add: cola_upper_def cola_fields_def ProductCreate.extend_def)
  have 1: "create_category empty_db 1700000000 drinks_oid drinks_fields
             = (Inr (serialize_doc (Some drinks)),
                \<lparr>categories_collection = [drinks], products_collection = []\<rparr>)"
    by (simp add: create_category_def insert_one_def find_one_def empty_db_def drinks_def Let_def)
  have 2: "create_product \<lparr>categories_collection = [drinks], products_collection = []\<rparr>
             1700000060 cola_oid (cola_fields ''65A1B2C3D4E5F6A7B8C9D0E1'')
             = (Inr (serialize_doc (Some cola_upper)),
                \<lparr>categories_collection = [drinks], products_collection = [cola_upper]\<rparr>)"
    using drinks_id_upper
    by (simp add: create_product_def insert_one_def find_one_def drinks_def cola_upper_def
        cola_fields_def Let_def)
  have 3: "run_ops empty_db
             [Create_category 1700000000 drinks_oid drinks_fields,
              Create_product 1700000060 cola_oid (cola_fields ''65A1B2C3D4E5F6A7B8C9D0E1'')]
             = \<lparr>categories_collection = [drinks], products_collection = [cola_upper]\<rparr>"
    by (simp add: run_ops_def 1 2)
  have 4: "referential_integrity
             \<lparr>categories_collection = [drinks], products_collection = [cola_upper]\<rparr>"
    using drinks_id_upper by (simp add: referential_integrity_def resolves_def cat find_one_def drinks_def)
  have 5: "delete_category \<lparr>categories_collection = [drinks], products_collection = [cola_upper]\<rparr>
             ''65a1b2c3d4e5f6a7b8c9d0e1''
             = (Inr ''Category deleted successfully'',
                \<lparr>categories_collection = [], products_collection = [cola_upper]\<rparr>)"
    using drinks_id_str
    by (simp add: delete_category_def count_documents_def cat drinks_def)
  have 6: "\<not> referential_integrity
               \<lparr>categories_collection = [], products_collection = [cola_upper]\<rparr>"
    using drinks_id_upper by (simp add: referential_integrity_def resolves_def cat find_one_def)
  from 3 4 5 6 show ?thesis by simp
qed

subsection \<open>The operations that keep referential integrity\<close>

lemma resolves_iff:
  "resolves d s \<longleftrightarrow> (\<exists>i. ObjectId s = Inr i \<and> i \<in> set (map ident (categories_collection d)))"
proof (cases "ObjectId s")
  case (Inl e)
  then show ?thesis by (simp add: resolves_def)
next
  case (Inr i)
  have "find_one (\<lambda>c. ident c = i) (categories_collection d) \<noteq> None
          \<longleftrightarrow> i \<in> set (map ident (categories_collection d))"
    by (auto simp: find_one_None)
  with Inr show ?thesis by (simp add: resolves_def)
qed

lemma integrity_mono:
  assumes "referential_integrity d"
    and "set (map ident (categories_collection d)) \<subseteq> set (map ident (categories_collection d'))"
    and "\<forall>p\<in>set (products_collection d').
           p \<in> set (products_collection d) \<or> resolves d' (ProductCreate.category_id (content p))"
  shows "referential_integrity d'"
  using assms unfolding referential_integrity_def list_all_iff resolves_iff by blast

lemma update_one_idents:
  assumes "\<And>x. ident (upd x) = ident x"
  shows "map ident (snd (update_one query upd coll)) = map ident coll"
proof (induction coll)
  case Nil
  then show ?case by simp
next
  case (Cons d ds)
  obtain n ds' where "update_one query upd ds = (n, ds')"
    by (cases "update_one query upd ds")
  with Cons assms show ?case by simp
qed

lemma update_one_members:
  "x \<in> set (snd (update_one query upd coll)) \<Longrightarrow> x \<in> set coll \<or> (\<exists>y\<in>set coll. x = upd y)"
proof (induction coll)
  case Nil
  then show ?case by simp
next
  case (Cons d ds)
  obtain n ds' where "update_one query upd ds = (n, ds')"
    by (cases "update_one query upd ds")
  with Cons show ?case by (auto split: if_splits)
qed

lemma delete_one_members:
  "set (snd (delete_one query coll)) \<subseteq> set coll"
proof (cases "find_one query coll")
  case None
  then show ?thesis by (simp add: delete_one_find)
next
  case (Some x)
  then show ?thesis
    using set_remove1_subset [of x coll] by (simp add: delete_one_find)
qed

lemma create_category_integrity:
  "referential_integrity d \<Longrightarrow> referential_integrity (snd (create_category d now i category))"
  by (rule integrity_mono [of d])
     (auto simp: create_category_def insert_one_def Let_def)

lemma update_category_integrity:
  "referential_integrity d \<Longrightarrow> referential_integrity (snd (update_category d cat_id category))"
proof (rule integrity_mono [of d])
  let ?d' = "snd (update_category d cat_id category)"
  have "list_all2 (category_frame category) (categories_collection d) (categories_collection ?d')"
    and p: "products_collection ?d' = products_collection d"
    using update_category_frame [of category d cat_id] by simp_all
  then have "map ident (categories_collection ?d') = map ident (categories_collection d)"
    by (induction rule: list_all2_induct) (simp_all add: category_frame_def)
  then show "set (map ident (categories_collection d)) \<subseteq> set (map ident (categories_collection ?d'))"
    by simp
  show "\<forall>p\<in>set (products_collection ?d').
          p \<in> set (products_collection d) \<or> resolves ?d' (ProductCreate.category_id (content p))"
    using p by simp
qed

lemma delete_product_effect:
  "categories_collection (snd (delete_product d product_id)) = categories_collection d
   \<and> set (products_collection (snd (delete_product d product_id)))
       \<subseteq> set (products_collection d)"
proof (cases "ObjectId product_id")
  case (Inl e)
  then show ?thesis by (simp add: delete_product_def)
next
  case (Inr i)
  obtain n coll where u: "delete_one (\<lambda>p. ident p = i) (products_collection d) = (n, coll)"
    by (cases "delete_one (\<lambda>p. ident p = i) (products_collection d)")
  have "set coll \<subseteq> set (products_collection d)"
    using delete_one_members [of "\<lambda>p. ident p = i" "products_collection d"] u by simp
  then show ?thesis
    using Inr u by (simp add: delete_product_def Let_def)
qed

lemma delete_product_integrity:
  "referential_integrity d \<Longrightarrow> referential_integrity (snd (delete_product d product_id))"
proof (rule integrity_mono [of d])
  show "set (map ident (categories_collection d))
          \<subseteq> set (map ident (categories_collection (snd (delete_product d product_id))))"
    using delete_product_effect [of d product_id] by simp
  show "\<forall>p\<in>set (products_collection (snd (delete_product d product_id))).
          p \<in> set (products_collection d)
          \<or> resolves (snd (delete_product d product_id)) (ProductCreate.category_id (content p))"
    using delete_product_effect [of d product_id] by blast
qed

lemma create_product_integrity:
  "referential_integrity d \<Longrightarrow> referential_integrity (snd (create_product d now i product))"
proof (rule integrity_mono [of d])
  show "set (map ident (categories_collection d))
          \<subseteq> set (map ident (categories_collection (snd (create_product d now i product))))"
    by (simp add: create_product_def insert_one_def Let_def split: sum.splits option.splits)
  show "\<forall>p\<in>set (products_collection (snd (create_product d now i product))).
          p \<in> set (products_collection d)
          \<or> resolves (snd (create_product d now i product)) (ProductCreate.category_id (content p))"
    by (auto simp: create_product_def insert_one_def Let_def resolves_def
        ProductCreate.extend_def split: sum.splits option.splits)
qed

lemma set_product_category_id:
  "ProductCreate.category_id
     (content (set_product (List.map_filter (\<lambda>v. v) (ProductUpdate_dict u)) p))
   = (case ProductUpdate.category_id u of
        None \<Rightarrow> ProductCreate.category_id (content p)
      | Some s \<Rightarrow> s)"
proof (cases "ProductUpdate.category_id u")
  case None
  then show ?thesis
    using set_product_frame [of u p] by (simp add: product_frame_def)
next
  case (Some s)
  define rest where
    "rest = [map_option PName_tr (ProductUpdate.name_tr u),
             map_option PName_en (ProductUpdate.name_en u),
             map_option PDescription_tr (ProductUpdate.description_tr u),
             map_option PDescription_en (ProductUpdate.description_en u),
             map_option PPrice (ProductUpdate.price u),
             map_option PImage_url (ProductUpdate.image_url u),
             map_option PSort_order (ProductUpdate.sort_order u),
             map_option PIs_active (ProductUpdate.is_active u)]"
  have dict: "ProductUpdate_dict u = Some (PCategory_id s) # rest"
    using Some by (simp add: ProductUpdate_dict_def rest_def)
  have "\<forall>v. Some (PCategory_id v) \<notin> set rest"
    by (simp add: rest_def Some_eq_map_option)
  then have none: "\<forall>v. PCategory_id v \<notin> set (List.map_filter (\<lambda>v. v) rest)"
    unfolding set_map_filter_Some by simp
  have "List.map_filter (\<lambda>v. v) (ProductUpdate_dict u)
          = PCategory_id s # List.map_filter (\<lambda>v. v) rest"
    unfolding dict by simp
  then show ?thesis
    using Some fold_set_product_category_id [OF none]
    by (simp add: set_product_def)
qed

lemma update_product_effect:
  "snd (update_product d product_id u) = d
   \<or> (\<exists>i. (case ProductUpdate.category_id u of None \<Rightarrow> True | Some s \<Rightarrow> resolves d s)
          \<and> snd (update_product d product_id u)
              = d\<lparr>products_collection :=
                    snd (update_one (\<lambda>p. ident p = i)
                           (set_product (List.map_filter (\<lambda>v. v) (ProductUpdate_dict u)))
                           (products_collection d))\<rparr>)"
proof -
  let ?fs = "List.map_filter (\<lambda>v. v) (ProductUpdate_dict u)"
  let ?check = "case ProductUpdate.category_id u of
                  None \<Rightarrow> None
                | Some s \<Rightarrow>
                    (case ObjectId s of
                       Inl e \<Rightarrow> Some e
                     | Inr i \<Rightarrow>
                         (case find_one (\<lambda>c. ident c = i) (categories_collection d) of
                            None \<Rightarrow> Some (HTTPException 404 ''Category not found'')
                          | Some category \<Rightarrow> None))"
  have unfold: "update_product d product_id u =
     (if ?fs = [] then (Inl (HTTPException 400 ''No fields to update''), d)
      else case ?check of
             Some e \<Rightarrow> (Inl e, d)
           | None \<Rightarrow>
               (case ObjectId product_id of
                  Inl e \<Rightarrow> (Inl e, d)
                | Inr i \<Rightarrow>
                    (case update_one (\<lambda>p. ident p = i) (set_product ?fs)
                            (products_collection d) of
                       (matched_count, coll) \<Rightarrow>
                         (let d' = d\<lparr>products_collection := coll\<rparr>
                          in if matched_count = 0
                             then (Inl (HTTPException 404 ''Product not found''), d')
                             else (Inr (serialize_doc
                                         (find_one (\<lambda>p. ident p = i) (products_collection d'))),
                                   d')))))"
    by (simp add: update_product_def Let_def update_data_category_id)
  show ?thesis
  proof (cases "?fs = [] \<or> ?check \<noteq> None \<or> (\<exists>e. ObjectId product_id = Inl e)")
    case True
    then have "snd (update_product d product_id u) = d"
      unfolding unfold by (auto split: option.splits sum.splits)
    then show ?thesis by simp
  next
    case False
    then obtain i where i: "ObjectId product_id = Inr i"
      by (cases "ObjectId product_id") auto
    have ok: "case ProductUpdate.category_id u of None \<Rightarrow> True | Some s \<Rightarrow> resolves d s"
      using False by (auto simp: resolves_def split: option.splits sum.splits)
    obtain n coll where c: "update_one (\<lambda>p. ident p = i) (set_product ?fs)
                              (products_collection d) = (n, coll)"
      by (cases "update_one (\<lambda>p. ident p = i) (set_product ?fs) (products_collection d)")
    have "snd (update_product d product_id u) = d\<lparr>products_collection := coll\<rparr>"
      unfolding unfold using False i c by (simp add: Let_def)
    with ok c show ?thesis
      by (intro disjI2 exI [of _ i]) simp
  qed
qed

lemma update_product_integrity:
  assumes "referential_integrity d"
  shows "referential_integrity (snd (update_product d product_id u))"
proof -
  let ?fs = "List.map_filter (\<lambda>v. v) (ProductUpdate_dict u)"
  from update_product_effect [of d product_id u] show ?thesis
  proof
    assume "snd (update_product d product_id u) = d"
    with assms show ?thesis by simp
  next
    assume "\<exists>i. (case ProductUpdate.category_id u of None \<Rightarrow> True | Some s \<Rightarrow> resolves d s)
              \<and> snd (update_product d product_id u)
                  = d\<lparr>products_collection :=
                        snd (update_one (\<lambda>p. ident p = i) (set_product ?fs)
                               (products_collection d))\<rparr>"
    then obtain i where
      ok: "case ProductUpdate.category_id u of None \<Rightarrow> True | Some s \<Rightarrow> resolves d s"
      and d': "snd (update_product d product_id u)
                 = d\<lparr>products_collection :=
                       snd (update_one (\<lambda>p. ident p = i) (set_product ?fs)
                              (products_collection d))\<rparr>"
      by blast
    have old: "\<forall>p\<in>set (products_collection d). resolves d (ProductCreate.category_id (content p))"
      using assms by (simp add: referential_integrity_def list_all_iff)
    have new: "resolves d (ProductCreate.category_id (content (set_product ?fs p)))"
      if "p \<in> set (products_collection d)" for p
      using that ok old by (simp add: set_product_category_id split: option.splits)
    have "resolves d (ProductCreate.category_id (content p'))"
      if "p' \<in> set (snd (update_one (\<lambda>p. ident p = i) (set_product ?fs)
                            (products_collection d)))" for p'
      using update_one_members [OF that] old new by blast
    then show ?thesis
      unfolding d' by (simp add: referential_integrity_def list_all_iff resolves_iff)
  qed
qed

lemma delete_category_integrity:
  assumes "referential_integrity d"
    and "\<forall>p\<in>set (products_collection d).
           ObjectId (ProductCreate.category_id (content p)) = ObjectId s
           \<longrightarrow> ProductCreate.category_id (content p) = s"
  shows "referential_integrity (snd (delete_category d s))"
proof -
  let ?count = "count_documents (\<lambda>p. ProductCreate.category_id (content p) = s)
                  (products_collection d)"
  show ?thesis
  proof (cases "0 < ?count \<or> (\<exists>e. ObjectId s = Inl e)")
    case True
    then have "snd (delete_category d s) = d"
      by (auto simp: delete_category_def)
    with assms(1) show ?thesis by simp
  next
    case False
    then obtain i where i: "ObjectId s = Inr i" and zero: "?count = 0"
      by (cases "ObjectId s") auto
    have unref: "\<forall>p\<in>set (products_collection d). ProductCreate.category_id (content p) \<noteq> s"
      using zero by (auto simp: count_documents_def filter_empty_conv)
    show ?thesis
    proof (cases "find_one (\<lambda>c. ident c = i) (categories_collection d)")
      case None
      then have "snd (delete_category d s) = d"
        using i zero by (simp add: delete_category_def delete_one_find)
      with assms(1) show ?thesis by simp
    next
      case (Some c)
      then have d': "snd (delete_category d s)
                       = d\<lparr>categories_collection := remove1 c (categories_collection d)\<rparr>"
        using i zero by (simp add: delete_category_def delete_one_find)
      have c: "ident c = i"
        using Some by (auto simp: find_one_def find_Some_iff)
      have "resolves (d\<lparr>categories_collection := remove1 c (categories_collection d)\<rparr>)
              (ProductCreate.category_id (content p))"
        if p: "p \<in> set (products_collection d)" for p
      proof -
        from assms(1) p obtain j x where
          j: "ObjectId (ProductCreate.category_id (content p)) = Inr j"
          and x: "x \<in> set (categories_collection d)" "ident x = j"
          by (auto simp: referential_integrity_def list_all_iff resolves_iff)
        have "j \<noteq> i"
          using assms(2) unref p i j by auto
        with x(2) c have "x \<noteq> c"
          by auto
        with x(1) have "x \<in> set (remove1 c (categories_collection d))"
          by (simp add: in_set_remove1)
        with j x(2) show ?thesis
          by (auto simp: resolves_iff)
      qed
      then show ?thesis
        unfolding d' by (simp add: referential_integrity_def list_all_iff)
    qed
  qed
qed

text \<open>
  Every operation on a store with referential integrity keeps it, a category deletion as
  long as it names its category by the only spelling the stored products use for that
  identifier; so does every run of operations that deletes no category.
\<close>

lemma step_integrity:
  assumes "referential_integrity d"
    and "\<And>s. op = Delete_category s
           \<Longrightarrow> \<forall>p\<in>set (products_collection d).
                 ObjectId (ProductCreate.category_id (content p)) = ObjectId s
                 \<longrightarrow> ProductCreate.category_id (content p) = s"
  shows "referential_integrity (step d op)"
proof (cases op)
  case (Create_category now i category)
  then show ?thesis using assms(1) by (simp add: create_category_integrity)
next
  case (Update_category cat_id category)
  then show ?thesis using assms(1) by (simp add: update_category_integrity)
next
  case (Delete_category s)
  then show ?thesis using assms by (simp add: delete_category_integrity)
next
  case (Create_product now i product)
  then show ?thesis using assms(1) by (simp add: create_product_integrity)
next
  case (Update_product product_id product)
  then show ?thesis using assms(1) by (simp add: update_product_integrity)
next
  case (Delete_product product_id)
  then show ?thesis using assms(1) by (simp add: delete_product_integrity)
qed

lemma run_ops_integrity:
  assumes "referential_integrity d" and "\<forall>op\<in>set ops. \<forall>s. op \<noteq> Delete_category s"
  shows "referential_integrity (run_ops d ops)"
  using assms
proof (induction ops arbitrary: d)
  case Nil
  then show ?case by (simp add: run_ops_def)
next
  case (Cons op ops)
  have "referential_integrity (step d op)"
    using Cons.prems by (intro step_integrity) auto
  then have "referential_integrity (run_ops (step d op) ops)"
    using Cons.prems by (intro Cons.IH) auto
  then show ?case by (simp add: run_ops_def)
qed

end
